theory Spec2Isabelle
  imports Main "HOL-Library.Sublist"
begin

section \<open>Strings\<close>

text \<open>
  Python strings are modelled as \<^typ>\<open>string\<close>, a list of 8-bit characters: ASCII text
  is one character per code point, and a code point beyond ASCII is the bytes of its UTF-8
  encoding. \<open>str.lower()\<close> is modelled on ASCII letters (\<open>A\<close>..\<open>Z\<close>); the
  Unicode case mapping of other code points is not modelled, every other character is
  kept. All keywords of the tables below are lower-case ASCII. \<open>len(s)\<close> is the
  length of the list.
\<close>

definition lower_char :: "char \<Rightarrow> char" where
  "lower_char c =
     (let n = (of_char c :: nat) in if 65 \<le> n \<and> n \<le> 90 then char_of (n + 32) else c)"

definition lower :: "string \<Rightarrow> string" where
  "lower s = map lower_char s"

text \<open>\<open>startswith pat s\<close> is Python's \<open>s.startswith(pat)\<close>.\<close>

fun startswith :: "string \<Rightarrow> string \<Rightarrow> bool" where
  "startswith [] s = True"
| "startswith (p # ps) [] = False"
| "startswith (p # ps) (c # cs) = (p = c \<and> startswith ps cs)"

text \<open>\<open>py_in kw s\<close> is Python's \<open>kw in s\<close> on strings: \<open>kw\<close> occurs in \<open>s\<close> as a
  contiguous substring (the empty string occurs in every string).\<close>

fun py_in :: "string \<Rightarrow> string \<Rightarrow> bool" where
  "py_in kw [] = (kw = [])"
| "py_in kw (c # cs) = (startswith kw (c # cs) \<or> py_in kw cs)"

section \<open>The keyword tables (\<open>llm/templates.py\<close>)\<close>

text \<open>\<open>RISK_KEYWORDS\<close> is a dictionary with the three fixed keys \<open>high_risk\<close>,
  \<open>medium_risk\<close> and \<open>low_risk\<close>: a record of three lists.\<close>

record risk_keywords =
  high_risk :: "string list"
  medium_risk :: "string list"
  low_risk :: "string list"

definition RISK_KEYWORDS :: risk_keywords where
  "RISK_KEYWORDS = \<lparr>
     high_risk = [''offshore'', ''shell company'', ''cash intensive'', ''structuring'',
       ''smurfing'', ''immediately transferred'', ''same day'', ''high risk jurisdiction'',
       ''fatf'', ''hawala'', ''cryptocurrency'', ''multiple accounts'', ''layering'',
       ''no business purpose'', ''beneficial owner unknown'', ''pep'',
       ''politically exposed'', ''sanctions''],
     medium_risk = [''unusual pattern'', ''inconsistent'', ''new beneficiary'', ''first time'',
       ''cannot explain'', ''no salary'', ''bulk transfer'', ''round amount'',
       ''late night transaction'', ''multiple devices'', ''new location''],
     low_risk = [''regular transaction'', ''known beneficiary'', ''salary credit'',
       ''utility payment'', ''small amount'', ''domestic transfer'']\<rparr>"

text \<open>\<open>TYPOLOGY_PATTERNS\<close> is a dictionary literal; Python iterates \<open>.items()\<close> in
  insertion order, so it is an association list in the order of the source.\<close>

definition TYPOLOGY_PATTERNS :: "(string \<times> string list) list" where
  "TYPOLOGY_PATTERNS =
    [(''Money Laundering - Layering'',
       [''multiple accounts'', ''international transfer'', ''same day'', ''layering'',
        ''offshore'', ''different sources'', ''immediately wired'', ''aggregation'']),
     (''Structuring / Smurfing'',
       [''below threshold'', ''cash deposits'', ''multiple deposits'', ''49000'', ''49,000'',
        ''sub-threshold'', ''structured'', ''avoid reporting'', ''fragmented'']),
     (''Account Takeover Fraud'',
       [''new device'', ''new location'', ''new beneficiary'', ''unauthorized'',
        ''unrecognized'', ''customer confirmed'', ''mule account'', ''credential'']),
     (''Trade-Based Money Laundering'',
       [''invoice'', ''import'', ''export'', ''customs'', ''trade'', ''discrepancy'',
        ''over-invoicing'', ''under-invoicing'', ''goods value'']),
     (''Terrorist Financing'',
       [''high risk country'', ''small transfers'', ''sanctioned'', ''fatf listed'',
        ''no business relationship'', ''frequent small'', ''monitored jurisdiction''])]"

section \<open>Risk scoring engine (\<open>llm/pipeline.py\<close>, \<open>calculate_risk_score\<close>)\<close>

text \<open>The three keyword loops. Each one threads \<open>score\<close> through the keywords of a tier, in
  list order.\<close>

definition score_high_risk :: "string \<Rightarrow> int \<Rightarrow> int" where
  "score_high_risk text_lower score0 =
     fold (\<lambda>kw score. if py_in (lower kw) text_lower then score + 8 else score)
       (high_risk RISK_KEYWORDS) score0"

definition score_medium_risk :: "string \<Rightarrow> int \<Rightarrow> int" where
  "score_medium_risk text_lower score0 =
     fold (\<lambda>kw score. if py_in (lower kw) text_lower then score + 4 else score)
       (medium_risk RISK_KEYWORDS) score0"

definition score_low_risk :: "string \<Rightarrow> int \<Rightarrow> int" where
  "score_low_risk text_lower score0 =
     fold (\<lambda>kw score. if py_in (lower kw) text_lower then max 0 (score - 2) else score)
       (low_risk RISK_KEYWORDS) score0"

text \<open>\<open>sum(1 for kw in keywords if kw.lower() in text_lower)\<close>\<close>

definition match_count :: "string \<Rightarrow> string list \<Rightarrow> nat" where
  "match_count text_lower keywords =
     length (filter (\<lambda>kw. py_in (lower kw) text_lower) keywords)"

text \<open>The typology loop over \<open>TYPOLOGY_PATTERNS.items()\<close>, with its two loop variables
  \<open>best_match_count\<close> and \<open>matched_typology\<close>.\<close>

fun detect_typology :: "(string \<times> string list) list \<Rightarrow> string \<Rightarrow> nat \<Rightarrow> string \<Rightarrow> string" where
  "detect_typology [] text_lower best_match_count matched_typology = matched_typology"
| "detect_typology ((typology, keywords) # rest) text_lower best_match_count matched_typology =
     (if match_count text_lower keywords > best_match_count
      then detect_typology rest text_lower (match_count text_lower keywords) typology
      else detect_typology rest text_lower best_match_count matched_typology)"

definition calculate_risk_score :: "string \<Rightarrow> string \<Rightarrow> int \<times> string" where
  "calculate_risk_score transactions customer_name =
     (let text_lower = lower transactions;
          score = score_high_risk text_lower 0;
          score = score_medium_risk text_lower score;
          score = score_low_risk text_lower score;
          score = min score 100;
          matched_typology =
            detect_typology TYPOLOGY_PATTERNS text_lower 0 ''General Suspicious Activity'';
          score = max score 30
      in (score, matched_typology))"




section \<open>The knowledge base (\<open>llm/templates.py\<close>, \<open>SAR_TEMPLATES\<close>)\<close>

text \<open>Each entry of \<open>SAR_TEMPLATES\<close> is a dictionary with the keys \<open>id\<close>,
  \<open>typology\<close>, \<open>title\<close> and \<open>template\<close>.\<close>

record sar_template =
  tmpl_id :: string
  tmpl_typology :: string
  tmpl_title :: string
  tmpl_template :: string

definition tmpl_001_template :: string where
  \<open>tmpl_001_template =
     ''\<newline>'' @
     ''SUBJECT INFORMATION:\<newline>'' @
     ''The subject, [CUSTOMER NAME], holds account [ACCOUNT NO] opened [DATE].\<newline>'' @
     ''Customer profile: [OCCUPATION], with an average monthly credit of [AMOUNT].\<newline>'' @
     ''\<newline>'' @
     ''TRANSACTION SUMMARY:\<newline>'' @
     ''Between [START DATE] and [END DATE], the subject received a total of [AMOUNT]\<newline>'' @
     ''across [COUNT] inbound transfers from [COUNT] distinct originating accounts.\<newline>'' @
     ''Subsequently, [AMOUNT] was transferred via SWIFT to [DESTINATION COUNTRY].\<newline>'' @
     ''\<newline>'' @
     ''SUSPICIOUS ACTIVITY DESCRIPTION:\<newline>'' @
     ''The transaction pattern is inconsistent with the customer's known financial profile.\<newline>'' @
     ''The aggregation of funds from numerous unrelated sources followed immediately by \<newline>'' @
     ''international wire transfer is indicative of layering '' @ [CHR 0xE2, CHR 0x80, CHR 0x94] @ '' a key stage of money laundering\<newline>'' @
     ''where illicit funds are moved through multiple accounts to obscure their origin.\<newline>'' @
     ''No legitimate business purpose has been identified to explain this activity.\<newline>'' @
     ''\<newline>'' @
     ''TYPOLOGY MATCH:\<newline>'' @
     ''This activity is consistent with the FATF money laundering typology:\<newline>'' @
     ''"Structuring and layering through multiple accounts with rapid international movement."\<newline>'' @
     ''\<newline>'' @
     ''WHY THIS IS SUSPICIOUS:\<newline>'' @
     ''1. Volume far exceeds customer's stated income or business activity\<newline>'' @
     ''2. 47 unique senders with no apparent relationship to customer\<newline>'' @
     ''3. No time gap between receipt and outward remittance (same-day layering)\<newline>'' @
     ''4. Destination jurisdiction flagged as high-risk by FATF\<newline>'' @
     ''5. No invoices, contracts, or business rationale provided\<newline>'' @
     ''        ''\<close>

definition tmpl_002_template :: string where
  \<open>tmpl_002_template =
     ''\<newline>'' @
     ''SUBJECT INFORMATION:\<newline>'' @
     ''The subject, [CUSTOMER NAME], holds account [ACCOUNT NO].\<newline>'' @
     ''Customer profile: [OCCUPATION], no prior suspicious activity flagged.\<newline>'' @
     ''\<newline>'' @
     ''TRANSACTION SUMMARY:\<newline>'' @
     ''Over [TIMEFRAME], the subject made [COUNT] cash deposits ranging from \<newline>'' @
     ''[MIN AMOUNT] to [MAX AMOUNT] each, totaling [TOTAL AMOUNT].\<newline>'' @
     ''Each individual deposit fell below the '' @ [CHR 0xE2, CHR 0x82, CHR 0xB9] @ ''50,000 mandatory reporting threshold.\<newline>'' @
     ''\<newline>'' @
     ''SUSPICIOUS ACTIVITY DESCRIPTION:\<newline>'' @
     ''The consistent sub-threshold deposit pattern strongly suggests deliberate structuring\<newline>'' @
     ''to evade Currency Transaction Report (CTR) requirements. The deposits show a clear\<newline>'' @
     ''behavioral pattern: amounts are consistently just below the reporting threshold,\<newline>'' @
     ''deposits occur at irregular intervals designed to avoid detection, and no salary\<newline>'' @
     ''credit or business receipts account for the cash origin.\<newline>'' @
     ''\<newline>'' @
     ''TYPOLOGY MATCH:\<newline>'' @
     ''FATF Typology: "Structuring (Smurfing) '' @ [CHR 0xE2, CHR 0x80, CHR 0x94] @ '' deliberate fragmentation of large cash\<newline>'' @
     ''amounts into sub-threshold transactions to evade mandatory reporting obligations."\<newline>'' @
     ''\<newline>'' @
     ''WHY THIS IS SUSPICIOUS:\<newline>'' @
     ''1. All 9 deposits deliberately below '' @ [CHR 0xE2, CHR 0x82, CHR 0xB9] @ ''50,000 CTR threshold\<newline>'' @
     ''2. No salary or business income to explain cash source\<newline>'' @
     ''3. Pattern of deposits clustered within 72 hours\<newline>'' @
     ''4. Immediate withdrawal after last deposit\<newline>'' @
     ''5. Customer could not explain source of funds when contacted\<newline>'' @
     ''        ''\<close>

definition tmpl_003_template :: string where
  \<open>tmpl_003_template =
     ''\<newline>'' @
     ''SUBJECT INFORMATION:\<newline>'' @
     ''The subject account [ACCOUNT NO] belongs to [CUSTOMER NAME].\<newline>'' @
     ''Account holder profile: [AGE], [OCCUPATION], established customer since [YEAR].\<newline>'' @
     ''\<newline>'' @
     ''TRANSACTION SUMMARY:\<newline>'' @
     ''On [DATE], a login was detected from a new device (Device ID: [DEVICE]) and \<newline>'' @
     ''new geographic location ([CITY/COUNTRY]). Within [TIMEFRAME] of login, a \<newline>'' @
     ''transfer of [AMOUNT] was initiated to a newly added beneficiary [BENEFICIARY NAME],\<newline>'' @
     ''a first-time recipient never previously transacted with.\<newline>'' @
     ''\<newline>'' @
     ''SUSPICIOUS ACTIVITY DESCRIPTION:\<newline>'' @
     ''The sequence of events '' @ [CHR 0xE2, CHR 0x80, CHR 0x94] @ '' new device login, new geography, new beneficiary addition,\<newline>'' @
     ''and immediate high-value transfer '' @ [CHR 0xE2, CHR 0x80, CHR 0x94] @ '' is strongly consistent with an account takeover\<newline>'' @
     ''attack. The legitimate account holder confirmed they did not initiate these transactions.\<newline>'' @
     ''The beneficiary account has since been flagged as a mule account by our fraud team.\<newline>'' @
     ''\<newline>'' @
     ''TYPOLOGY MATCH:\<newline>'' @
     ''Fraud Typology: "Account Takeover (ATO) '' @ [CHR 0xE2, CHR 0x80, CHR 0x94] @ '' unauthorized access to customer account\<newline>'' @
     ''using stolen credentials, followed by rapid asset extraction to mule accounts."\<newline>'' @
     ''\<newline>'' @
     ''WHY THIS IS SUSPICIOUS:\<newline>'' @
     ''1. Login from unrecognized device and IP geolocation mismatch\<newline>'' @
     ''2. New high-value beneficiary added and paid within same session\<newline>'' @
     ''3. Transaction amount significantly exceeds customer's normal behavior\<newline>'' @
     ''4. Customer confirmed non-authorization of transaction\<newline>'' @
     ''5. Receiving account flagged in cross-bank fraud consortium database\<newline>'' @
     ''        ''\<close>

definition tmpl_004_template :: string where
  \<open>tmpl_004_template =
     ''\<newline>'' @
     ''SUBJECT INFORMATION:\<newline>'' @
     ''The subject, [COMPANY NAME], is a registered importer/exporter, \<newline>'' @
     ''account [ACCOUNT NO], in operation since [YEAR].\<newline>'' @
     ''\<newline>'' @
     ''TRANSACTION SUMMARY:\<newline>'' @
     ''The subject received [COUNT] inward remittances totaling [AMOUNT] from \<newline>'' @
     ''[COUNTRY] during [TIMEFRAME], purportedly for goods export.\<newline>'' @
     ''Corresponding customs declarations show declared export value of [LOWER AMOUNT],\<newline>'' @
     ''creating an unexplained discrepancy of [DIFFERENCE].\<newline>'' @
     ''\<newline>'' @
     ''SUSPICIOUS ACTIVITY DESCRIPTION:\<newline>'' @
     ''The significant gap between remittances received and declared customs values \<newline>'' @
     ''indicates potential over-invoicing '' @ [CHR 0xE2, CHR 0x80, CHR 0x94] @ '' a trade-based money laundering technique\<newline>'' @
     ''where the value of goods is deliberately misrepresented to transfer value\<newline>'' @
     ''across borders and integrate illicit funds into the legitimate financial system.\<newline>'' @
     ''\<newline>'' @
     ''TYPOLOGY MATCH:\<newline>'' @
     ''FATF Typology: "Trade-Based Money Laundering (TBML) '' @ [CHR 0xE2, CHR 0x80, CHR 0x94] @ '' manipulation of international\<newline>'' @
     ''trade transactions to transfer value and launder illicit proceeds."\<newline>'' @
     ''\<newline>'' @
     ''WHY THIS IS SUSPICIOUS:\<newline>'' @
     ''1. '' @ [CHR 0xE2, CHR 0x82, CHR 0xB9] @ ''2.3 crore discrepancy between bank receipts and customs declarations\<newline>'' @
     ''2. Counterparty located in FATF-listed jurisdiction\<newline>'' @
     ''3. Goods description vague '' @ [CHR 0xE2, CHR 0x80, CHR 0x94] @ '' "general merchandise" with no HS codes\<newline>'' @
     ''4. No corresponding import of raw materials for stated manufacturing activity\<newline>'' @
     ''5. Director of company has prior AML advisory from another bank\<newline>'' @
     ''        ''\<close>

definition tmpl_005_template :: string where
  \<open>tmpl_005_template =
     ''\<newline>'' @
     ''SUBJECT INFORMATION:\<newline>'' @
     ''The subject, [CUSTOMER NAME], account [ACCOUNT NO], \<newline>'' @
     ''[OCCUPATION], customer since [YEAR].\<newline>'' @
     ''\<newline>'' @
     ''TRANSACTION SUMMARY:\<newline>'' @
     ''Over [TIMEFRAME], the subject made [COUNT] outward remittances of small amounts\<newline>'' @
     ''([AMOUNT RANGE] each) totaling [TOTAL] to recipients in [HIGH-RISK COUNTRY].\<newline>'' @
     ''Recipients appear to be individuals with no known business relationship.\<newline>'' @
     ''\<newline>'' @
     ''SUSPICIOUS ACTIVITY DESCRIPTION:\<newline>'' @
     ''The pattern of multiple small transfers to a high-risk jurisdiction, combined with\<newline>'' @
     ''the absence of any legitimate business or family connection, raises concerns of\<newline>'' @
     ''potential terrorist financing or sanctions evasion. Small amounts are typically\<newline>'' @
     ''used to avoid detection thresholds while cumulatively moving significant value.\<newline>'' @
     ''\<newline>'' @
     ''TYPOLOGY MATCH:\<newline>'' @
     ''FATF Typology: "Terrorist Financing '' @ [CHR 0xE2, CHR 0x80, CHR 0x94] @ '' movement of small value funds to high-risk\<newline>'' @
     ''jurisdictions to support extremist activities while avoiding detection thresholds."\<newline>'' @
     ''\<newline>'' @
     ''WHY THIS IS SUSPICIOUS:\<newline>'' @
     ''1. Recipients located in FATF high-risk and monitored jurisdiction\<newline>'' @
     ''2. No family or business connection to justify transfers\<newline>'' @
     ''3. Customer's income does not support frequency of international transfers\<newline>'' @
     ''4. Amounts designed to stay below SWIFT reporting thresholds\<newline>'' @
     ''5. Customer became evasive when asked purpose of transfers\<newline>'' @
     ''        ''\<close>

definition tmpl_001 :: sar_template where
  "tmpl_001 = \<lparr>tmpl_id = ''tmpl_001'', tmpl_typology = ''Money Laundering - Layering'',
     tmpl_title = ''Multiple Account Aggregation then International Transfer'',
     tmpl_template = tmpl_001_template\<rparr>"

definition tmpl_002 :: sar_template where
  "tmpl_002 = \<lparr>tmpl_id = ''tmpl_002'', tmpl_typology = ''Structuring / Smurfing'',
     tmpl_title = ''Sub-threshold Cash Deposits to Avoid Reporting'',
     tmpl_template = tmpl_002_template\<rparr>"

definition tmpl_003 :: sar_template where
  "tmpl_003 = \<lparr>tmpl_id = ''tmpl_003'', tmpl_typology = ''Account Takeover Fraud'',
     tmpl_title = ''Unauthorized Access Followed by Rapid Fund Transfer'',
     tmpl_template = tmpl_003_template\<rparr>"

definition tmpl_004 :: sar_template where
  "tmpl_004 = \<lparr>tmpl_id = ''tmpl_004'', tmpl_typology = ''Trade-Based Money Laundering'',
     tmpl_title = ''Over/Under Invoicing in Import-Export Transactions'',
     tmpl_template = tmpl_004_template\<rparr>"

definition tmpl_005 :: sar_template where
  "tmpl_005 = \<lparr>tmpl_id = ''tmpl_005'', tmpl_typology = ''Terrorist Financing'',
     tmpl_title = ''Small Transfers to High-Risk Jurisdiction'',
     tmpl_template = tmpl_005_template\<rparr>"


definition SAR_TEMPLATES :: "sar_template list" where
  "SAR_TEMPLATES = [tmpl_001, tmpl_002, tmpl_003, tmpl_004, tmpl_005]"

section \<open>Exceptions\<close>

text \<open>
  Every \<open>try\<close> of the pipeline catches \<open>Exception\<close>. A computation that can raise
  returns \<open>py_exn + 'a\<close>, \<open>Inl\<close> carrying the exception. \<open>BackendError msg\<close> stands for
  any exception raised inside ChromaDB, LangChain or Ollama (connection refused, timeout,
  model not found, ...), \<open>msg\<close> being its \<open>str()\<close>.
\<close>

datatype py_exn = IndexError | KeyError string | BackendError string

fun str_exn :: "py_exn \<Rightarrow> string" where
  "str_exn IndexError = ''list index out of range''"
| "str_exn (KeyError k) = [CHR 0x27] @ k @ [CHR 0x27]"
| "str_exn (BackendError msg) = msg"

definition py_bind :: "py_exn + 'a \<Rightarrow> ('a \<Rightarrow> py_exn + 'b) \<Rightarrow> py_exn + 'b" where
  "py_bind m f = (case m of Inl e \<Rightarrow> Inl e | Inr v \<Rightarrow> f v)"

definition try_except :: "py_exn + 'a \<Rightarrow> (py_exn \<Rightarrow> py_exn + 'a) \<Rightarrow> py_exn + 'a" where
  "try_except body handler = (case body of Inl e \<Rightarrow> handler e | Inr v \<Rightarrow> Inr v)"

text \<open>\<open>xs[i]\<close> for an index \<open>i \<ge> 0\<close>, and \<open>d[k]\<close> on a dictionary.\<close>

definition py_index :: "'a list \<Rightarrow> nat \<Rightarrow> py_exn + 'a" where
  "py_index xs i = (if i < length xs then Inr (xs ! i) else Inl IndexError)"

definition py_getitem :: "(string \<times> 'v) list \<Rightarrow> string \<Rightarrow> py_exn + 'v" where
  "py_getitem d k = (case map_of d k of None \<Rightarrow> Inl (KeyError k) | Some v \<Rightarrow> Inr v)"

text \<open>\<open>str(n)\<close> for an integer.\<close>

fun str_nat :: "nat \<Rightarrow> string" where
  "str_nat n =
     (if n < 10 then [''0123456789'' ! n]
      else str_nat (n div 10) @ [''0123456789'' ! (n mod 10)])"

declare str_nat.simps [simp del]

definition str_int :: "int \<Rightarrow> string" where
  "str_int i = (if i < 0 then ''-'' @ str_nat (nat (- i)) else str_nat (nat i))"

section \<open>The external back ends\<close>

text \<open>
  The vector index (ChromaDB) and the language model (Ollama behind LangChain) are not part
  of the repository. One call of \<open>generate_sar\<close> uses each of them once, so each is a
  function from its input to the outcome of that one call:
  \<^item> \<open>chroma_query text n\<close> is \<open>get_or_create_collection()\<close> followed by
    \<open>collection.query(query_texts=[text], n_results=n)\<close>; the result dictionary has
    the keys \<open>documents\<close> and \<open>metadatas\<close>, each a list with one list per query text;
  \<^item> \<open>ollama_invoke prompt\<close> is \<open>get_llm()\<close> followed by the invocation of
    \<open>SAR_PROMPT | llm | StrOutputParser()\<close>, on the formatted prompt.
  Console output (\<open>print\<close>) is not modelled.
\<close>

record query_result =
  documents :: "string list list"
  metadatas :: "(string \<times> string) list list list"

record backends =
  chroma_query :: "string \<Rightarrow> nat \<Rightarrow> py_exn + query_result"
  ollama_invoke :: "string \<Rightarrow> py_exn + string"

text \<open>The metadata that \<open>get_or_create_collection\<close> stores with each template.\<close>

definition template_metadata :: "sar_template \<Rightarrow> (string \<times> string) list" where
  "template_metadata tmpl =
     [(''typology'', tmpl_typology tmpl), (''title'', tmpl_title tmpl), (''id'', tmpl_id tmpl)]"

section \<open>Retrieval (\<open>retrieve_relevant_template\<close>)\<close>

text \<open>The loop \<open>for i, doc in enumerate(results["documents"][0])\<close>; \<open>templates_text\<close> is
  its accumulator.\<close>

fun template_loop :: "nat \<Rightarrow> string list \<Rightarrow> query_result \<Rightarrow> string \<Rightarrow> py_exn + string" where
  "template_loop i [] results templates_text = Inr templates_text"
| "template_loop i (doc # docs) results templates_text =
     py_bind (py_index (metadatas results) 0) (\<lambda>metas.
     py_bind (py_index metas i) (\<lambda>meta.
     py_bind (py_getitem meta ''typology'') (\<lambda>meta_typology.
       template_loop (Suc i) docs results
         (templates_text @ ''\<newline>\<newline>--- REFERENCE TEMPLATE ('' @ meta_typology
            @ '') ---\<newline>'' @ doc))))"

text \<open>The body of the \<open>try\<close> block, and the function with its handler.\<close>

definition query_templates :: "backends \<Rightarrow> string \<Rightarrow> nat \<Rightarrow> py_exn + string" where
  "query_templates env transaction_text n_results =
     py_bind (chroma_query env transaction_text (min n_results (length SAR_TEMPLATES)))
       (\<lambda>results.
     py_bind (py_index (documents results) 0) (\<lambda>docs.
       template_loop 0 docs results []))"

definition retrieve_relevant_template :: "backends \<Rightarrow> string \<Rightarrow> nat \<Rightarrow> py_exn + string" where
  "retrieve_relevant_template env transaction_text n_results =
     try_except (query_templates env transaction_text n_results)
       (\<lambda>e. py_bind (py_index SAR_TEMPLATES 0) (\<lambda>tmpl. Inr (tmpl_template tmpl)))"

section \<open>The prompt (\<open>SAR_PROMPT_TEMPLATE\<close>)\<close>

text \<open>\<open>SAR_PROMPT_SECTIONS\<close> is the text of \<open>SAR_PROMPT_TEMPLATE\<close> after its last
  placeholder: the instruction that names the seven sections. \<open>format_SAR_PROMPT\<close> is
  the template with its six placeholders filled in.\<close>

definition SAR_PROMPT_SECTIONS :: string where
  \<open>SAR_PROMPT_SECTIONS =
     ''\<newline>'' @
     ''\<newline>'' @
     ''---\<newline>'' @
     ''\<newline>'' @
     ''Write a complete, professional SAR narrative with EXACTLY these sections:\<newline>'' @
     ''\<newline>'' @
     ''## 1. SUBJECT INFORMATION\<newline>'' @
     ''[Full details about the customer and their normal account profile]\<newline>'' @
     ''\<newline>'' @
     ''## 2. TRANSACTION SUMMARY  \<newline>'' @
     ''[Precise summary of suspicious transactions with dates, amounts, and parties involved]\<newline>'' @
     ''\<newline>'' @
     ''## 3. SUSPICIOUS ACTIVITY DESCRIPTION\<newline>'' @
     ''[Detailed narrative explaining exactly what happened and why it is suspicious]\<newline>'' @
     ''\<newline>'' @
     ''## 4. TYPOLOGY MATCH\<newline>'' @
     ''[Map this activity to a known financial crime typology with explanation]\<newline>'' @
     ''\<newline>'' @
     ''## 5. RED FLAGS IDENTIFIED\<newline>'' @
     ''[Numbered list of specific red flags observed in this case]\<newline>'' @
     ''\<newline>'' @
     ''## 6. ANALYST RECOMMENDATION\<newline>'' @
     ''[Recommended next steps: file SAR / escalate / request documents / freeze account]\<newline>'' @
     ''\<newline>'' @
     ''## 7. AUDIT RATIONALE\<newline>'' @
     ''[Explain which specific data points influenced this narrative and why]\<newline>'' @
     ''\<newline>'' @
     ''Write in formal regulatory language. Be specific, factual, and unambiguous.\<newline>'' @
     ''Do NOT include any disclaimers or meta-commentary. Write only the SAR narrative.\<newline>''\<close>

definition format_SAR_PROMPT ::
  "string \<Rightarrow> string \<Rightarrow> string \<Rightarrow> string \<Rightarrow> int \<Rightarrow> string \<Rightarrow> string" where
  \<open>format_SAR_PROMPT reference_templates customer_name account_number typology risk_score
       transactions =
     ''You are a senior AML (Anti-Money Laundering) compliance officer at a major bank.\<newline>'' @
     ''Your task is to write a formal, regulator-ready Suspicious Activity Report (SAR) narrative.\<newline>'' @
     ''\<newline>'' @
     ''REFERENCE TEMPLATES (use these as style guides):\<newline>'' @
     reference_templates @
     ''\<newline>'' @
     ''\<newline>'' @
     ''---\<newline>'' @
     ''\<newline>'' @
     ''NOW GENERATE A SAR FOR THIS CASE:\<newline>'' @
     ''\<newline>'' @
     ''CUSTOMER NAME: '' @
     customer_name @
     ''\<newline>'' @
     ''ACCOUNT NUMBER: '' @
     account_number @
     ''\<newline>'' @
     ''DETECTED TYPOLOGY: '' @
     typology @
     ''\<newline>'' @
     ''RISK SCORE: '' @
     str_int risk_score @
     ''/100\<newline>'' @
     ''\<newline>'' @
     ''TRANSACTION DETAILS:\<newline>'' @
     transactions @
     SAR_PROMPT_SECTIONS\<close>

text \<open>\<open>chain.invoke({...})\<close> with \<open>chain = SAR_PROMPT | llm | StrOutputParser()\<close>.\<close>

definition invoke_chain ::
  "backends \<Rightarrow> string \<Rightarrow> string \<Rightarrow> string \<Rightarrow> string \<Rightarrow> int \<Rightarrow> string \<Rightarrow> py_exn + string" where
  "invoke_chain env reference_templates customer_name account_number typology risk_score
       transactions =
     ollama_invoke env
       (format_SAR_PROMPT reference_templates customer_name account_number typology risk_score
          transactions)"

section \<open>The fallback narrative (\<open>generate_fallback_sar\<close>)\<close>

definition generate_fallback_sar ::
  "string \<Rightarrow> string \<Rightarrow> string \<Rightarrow> string \<Rightarrow> int \<Rightarrow> string" where
  \<open>generate_fallback_sar customer_name account_number transactions typology risk_score =
     ''## 1. SUBJECT INFORMATION\<newline>'' @
     ''Customer Name: '' @
     customer_name @
     ''\<newline>'' @
     ''Account Number: '' @
     account_number @
     ''\<newline>'' @
     ''This SAR has been raised based on automated pattern analysis of account activity.\<newline>'' @
     ''The customer's transaction behaviour has deviated significantly from their established profile.\<newline>'' @
     ''\<newline>'' @
     ''## 2. TRANSACTION SUMMARY\<newline>'' @
     ''The following suspicious transactions have been identified:\<newline>'' @
     transactions @
     ''\<newline>'' @
     ''\<newline>'' @
     ''## 3. SUSPICIOUS ACTIVITY DESCRIPTION\<newline>'' @
     ''Analysis of the account activity reveals patterns inconsistent with the customer's \<newline>'' @
     ''known financial profile and stated purpose of account. The transaction pattern \<newline>'' @
     ''suggests deliberate structuring or layering of funds inconsistent with legitimate \<newline>'' @
     ''business or personal activity. The velocity, volume, and nature of transactions \<newline>'' @
     ''observed over the reporting period raise significant concerns.\<newline>'' @
     ''\<newline>'' @
     ''## 4. TYPOLOGY MATCH\<newline>'' @
     ''Detected Typology: '' @
     typology @
     ''\<newline>'' @
     ''This activity aligns with FATF-recognized money laundering/fraud typologies \<newline>'' @
     ''involving layering of funds through multiple transactions to obscure the origin \<newline>'' @
     ''of funds and evade detection thresholds.\<newline>'' @
     ''\<newline>'' @
     ''## 5. RED FLAGS IDENTIFIED\<newline>'' @
     ''1. Transaction pattern inconsistent with customer profile\<newline>'' @
     ''2. Unusual velocity of transactions detected\<newline>'' @
     ''3. Transaction amounts and counterparties raise AML concerns\<newline>'' @
     ''4. No apparent legitimate business purpose identified\<newline>'' @
     ''5. Pattern matches known financial crime typology: '' @
     typology @
     ''\<newline>'' @
     ''\<newline>'' @
     ''## 6. ANALYST RECOMMENDATION\<newline>'' @
     ''RECOMMENDED ACTION: File Suspicious Activity Report immediately.\<newline>'' @
     ''- Escalate to Senior AML Officer for review\<newline>'' @
     ''- Place account under enhanced monitoring\<newline>'' @
     ''- Request source of funds documentation from customer\<newline>'' @
     ''- Cross-reference counterparties against sanctions and PEP lists\<newline>'' @
     ''- Consider account restriction pending investigation\<newline>'' @
     ''\<newline>'' @
     ''## 7. AUDIT RATIONALE\<newline>'' @
     ''Risk Score: '' @
     str_int risk_score @
     ''/100\<newline>'' @
     ''This narrative was generated based on automated transaction pattern analysis.\<newline>'' @
     ''Key data points: transaction frequency, amount patterns, counterparty diversity,\<newline>'' @
     ''and geographic risk factors. All source data is preserved in the audit log.\<newline>'' @
     ''NOTE: This is a system-generated draft. Human analyst review and approval required before filing.\<newline>''\<close>

section \<open>The generation entry point (\<open>generate_sar\<close>)\<close>

text \<open>
  \<open>audit_data\<close> is a dictionary with seven fixed keys; the field \<open>audit_k\<close> of the record
  is the key \<open>k\<close>. The result of \<open>generate_sar\<close> is a dictionary with the keys
  \<open>narrative\<close>, \<open>risk_score\<close>, \<open>typology\<close> and \<open>audit_data\<close>. The code stores
  \<open>json.dumps(audit_data, indent=2)\<close> under \<open>audit_data\<close> and its caller reads it back
  with \<open>json.loads\<close>; the JSON text is represented here by the dictionary it encodes.
\<close>

record audit_data =
  audit_risk_score :: int
  audit_typology_detected :: string
  audit_rag_templates_used :: "string list"
  audit_transaction_length :: int
  audit_model_used :: string
  audit_prompt_template :: string
  audit_processing_steps :: "string list"

record sar_result =
  res_narrative :: string
  res_risk_score :: int
  res_typology :: string
  res_audit_data :: audit_data

definition generate_sar :: "backends \<Rightarrow> string \<Rightarrow> string \<Rightarrow> string \<Rightarrow> py_exn + sar_result" where
  "generate_sar env transactions customer_name account_number =
     (case calculate_risk_score transactions customer_name of (risk_score, typology) \<Rightarrow>
      py_bind (retrieve_relevant_template env transactions 2) (\<lambda>reference_templates.
      let audit = \<lparr>
            audit_risk_score = risk_score,
            audit_typology_detected = typology,
            audit_rag_templates_used = map tmpl_typology (take 2 SAR_TEMPLATES),
            audit_transaction_length = int (length transactions),
            audit_model_used = ''llama3.1:8b (local)'',
            audit_prompt_template = ''SAR_PROMPT_V1'',
            audit_processing_steps =
              [''1. Risk keywords scanned and scored'',
               ''2. Typology pattern matched'',
               ''3. ChromaDB queried for relevant SAR templates'',
               ''4. LangChain prompt assembled with context'',
               ''5. Ollama LLM generated narrative'',
               ''6. Narrative stored with full audit trail'']\<rparr>
      in
      py_bind
        (try_except
           (py_bind
              (invoke_chain env reference_templates customer_name account_number typology
                 risk_score transactions)
              (\<lambda>narrative. Inr (narrative, audit)))
           (\<lambda>e. Inr
              (generate_fallback_sar customer_name account_number transactions typology
                 risk_score,
               audit\<lparr>audit_processing_steps := audit_processing_steps audit @
                 [''NOTE: LLM unavailable, fallback template used. Error: '' @ str_exn e]\<rparr>)))
        (\<lambda>(narrative, audit).
           Inr \<lparr>res_narrative = narrative, res_risk_score = risk_score,
                res_typology = typology, res_audit_data = audit\<rparr>)))"

text \<open>The outcome of the \<open>try\<close> block of step 4 of \<open>generate_sar\<close> on a request: the
  text the model returns for the prompt of that request, or the exception it raises.\<close>

definition generation_attempt :: "backends \<Rightarrow> string \<Rightarrow> string \<Rightarrow> string \<Rightarrow> py_exn + string" where
  "generation_attempt env transactions customer_name account_number =
     (case calculate_risk_score transactions customer_name of (risk_score, typology) \<Rightarrow>
      py_bind (retrieve_relevant_template env transactions 2) (\<lambda>reference_templates.
        invoke_chain env reference_templates customer_name account_number typology
          risk_score transactions))"

text \<open>The specification's \<open>InvalidInput\<close> condition, in its words: "empty or missing
  required case fields (customer name, transaction text)". The two fields are strings, so
  a field is never missing; it can be empty.\<close>

definition invalid_input :: "string \<Rightarrow> string \<Rightarrow> bool" where
  "invalid_input customer_name transactions = (customer_name = [] \<or> transactions = [])"

section \<open>Section headings of a narrative\<close>

text \<open>
  The prompt asks for sections headed by lines of the form \<open>## n. TITLE\<close>. The section
  headings of a text are its lines that start with \<open>## \<close>, in order, without trailing
  blanks. \<open>split_lines\<close> is \<open>text.split('\n')\<close>.
\<close>

fun split_lines :: "string \<Rightarrow> string list" where
  "split_lines [] = [[]]"
| "split_lines (c # cs) =
     (if c = CHR 0x0A then [] # split_lines cs
      else (case split_lines cs of
              [] \<Rightarrow> [[c]]
            | line # rest \<Rightarrow> (c # line) # rest))"

definition is_heading :: "string \<Rightarrow> bool" where
  "is_heading line = startswith ''## '' line"

definition rstrip_blanks :: "string \<Rightarrow> string" where
  "rstrip_blanks line = rev (dropWhile (\<lambda>c. c = CHR '' '') (rev line))"

definition heading_lines :: "string list \<Rightarrow> string list" where
  "heading_lines ls = map rstrip_blanks (filter is_heading ls)"

definition section_headings :: "string \<Rightarrow> string list" where
  "section_headings text = heading_lines (split_lines text)"

text \<open>\<open>join_lines ls\<close> is \<open>'\n'.join(ls)\<close>.\<close>

fun join_lines :: "string list \<Rightarrow> string" where
  "join_lines [] = []"
| "join_lines [line] = line"
| "join_lines (line # rest) = line @ CHR 0x0A # join_lines rest"

definition SECTION_HEADINGS :: "string list" where
  "SECTION_HEADINGS =
     [''## 1. SUBJECT INFORMATION'', ''## 2. TRANSACTION SUMMARY'',
      ''## 3. SUSPICIOUS ACTIVITY DESCRIPTION'', ''## 4. TYPOLOGY MATCH'',
      ''## 5. RED FLAGS IDENTIFIED'', ''## 6. ANALYST RECOMMENDATION'',
      ''## 7. AUDIT RATIONALE'']"

section \<open>Example back ends and inputs\<close>

text \<open>Both back ends down: every call raises.\<close>

definition offline_backends :: backends where
  "offline_backends = \<lparr>
     chroma_query = (\<lambda>text n. Inl (BackendError ''Could not connect to a Chroma server'')),
     ollama_invoke = (\<lambda>prompt. Inl (BackendError ''Connection refused''))\<rparr>"

text \<open>Both back ends up: the index returns the third and the fourth template, the model
  returns a text.\<close>

definition live_backends :: backends where
  "live_backends = \<lparr>
     chroma_query = (\<lambda>text n. Inr \<lparr>
       documents = [[tmpl_template tmpl_003, tmpl_template tmpl_004]],
       metadatas = [[template_metadata tmpl_003, template_metadata tmpl_004]]\<rparr>),
     ollama_invoke = (\<lambda>prompt. Inr ''## 1. SUBJECT INFORMATION\<newline>(generated)'')\<rparr>"

definition takeover_text :: string where
  "takeover_text =
     ''Login from a new device and new location; unauthorized transfer to a mule account.''"

text \<open>A transaction text pasted from a case note written in Markdown.\<close>

definition markdown_text :: string where
  "markdown_text =
     ''## Transactions\<newline>Nine cash deposits of 49,000 each, below threshold, in 72 hours.''"


section \<open>The classifier\<close>

subsection \<open>The typology loop computes the first maximum\<close>









lemma calculate_risk_score_empty:
  "calculate_risk_score [] customer_name = (30, ''General Suspicious Activity'')"
  by code_simp

text \<open>
  Claim C3. For every transaction text and customer name, the risk score returned by
  \<open>calculate_risk_score\<close> is an integer between 30 and 100: the score is capped at 100
  and the floor of 30 is applied whatever the keyword loops found. In particular the empty
  text, which matches no keyword, scores exactly 30.
\<close>

theorem calculate_risk_score_bounds:
  "30 \<le> fst (calculate_risk_score transactions customer_name)
   \<and> fst (calculate_risk_score transactions customer_name) \<le> 100
   \<and> fst (calculate_risk_score [] customer_name) = 30"
  by (simp add: calculate_risk_score_empty) (simp add: calculate_risk_score_def Let_def)


text \<open>
  Claim C9. The classifier is a function of the transaction text and the keyword tables
  alone: two calls of \<open>calculate_risk_score\<close> on the same text return the same score and
  typology, whatever customer names are passed.
\<close>

theorem calculate_risk_score_ignores_customer_name:
  "calculate_risk_score transactions customer_name =
   calculate_risk_score transactions customer_name'"
  by (simp add: calculate_risk_score_def)

section \<open>Retrieval and generation\<close>

lemma first_template: "py_index SAR_TEMPLATES 0 = Inr tmpl_001"
  by (simp add: py_index_def SAR_TEMPLATES_def)

lemma retrieve_cases:
  "retrieve_relevant_template env t n =
     (case query_templates env t n of
        Inr templates_text \<Rightarrow> Inr templates_text
      | Inl e \<Rightarrow> Inr (tmpl_template (SAR_TEMPLATES ! 0)))"
proof -
  have "SAR_TEMPLATES ! 0 = tmpl_001" by (simp add: SAR_TEMPLATES_def)
  then show ?thesis
    by (simp add: retrieve_relevant_template_def try_except_def py_bind_def first_template
          split: sum.splits)
qed

lemma retrieve_total: "\<exists>ref. retrieve_relevant_template env t n = Inr ref"
  by (simp add: retrieve_cases split: sum.splits)

lemma generate_sar_live:
  assumes "calculate_risk_score t c = (risk, ty)"
    and "retrieve_relevant_template env t 2 = Inr ref"
    and "invoke_chain env ref c a ty risk t = Inr narrative"
  shows "generate_sar env t c a = Inr \<lparr>
           res_narrative = narrative, res_risk_score = risk, res_typology = ty,
           res_audit_data = \<lparr>
             audit_risk_score = risk,
             audit_typology_detected = ty,
             audit_rag_templates_used = map tmpl_typology (take 2 SAR_TEMPLATES),
             audit_transaction_length = int (length t),
             audit_model_used = ''llama3.1:8b (local)'',
             audit_prompt_template = ''SAR_PROMPT_V1'',
             audit_processing_steps =
               [''1. Risk keywords scanned and scored'',
                ''2. Typology pattern matched'',
                ''3. ChromaDB queried for relevant SAR templates'',
                ''4. LangChain prompt assembled with context'',
                ''5. Ollama LLM generated narrative'',
                ''6. Narrative stored with full audit trail'']\<rparr>\<rparr>"
  using assms by (simp add: generate_sar_def py_bind_def try_except_def)

lemma generate_sar_fallback:
  assumes "calculate_risk_score t c = (risk, ty)"
    and "retrieve_relevant_template env t 2 = Inr ref"
    and "invoke_chain env ref c a ty risk t = Inl e"
  shows "generate_sar env t c a = Inr \<lparr>
           res_narrative = generate_fallback_sar c a t ty risk,
           res_risk_score = risk, res_typology = ty,
           res_audit_data = \<lparr>
             audit_risk_score = risk,
             audit_typology_detected = ty,
             audit_rag_templates_used = map tmpl_typology (take 2 SAR_TEMPLATES),
             audit_transaction_length = int (length t),
             audit_model_used = ''llama3.1:8b (local)'',
             audit_prompt_template = ''SAR_PROMPT_V1'',
             audit_processing_steps =
               [''1. Risk keywords scanned and scored'',
                ''2. Typology pattern matched'',
                ''3. ChromaDB queried for relevant SAR templates'',
                ''4. LangChain prompt assembled with context'',
                ''5. Ollama LLM generated narrative'',
                ''6. Narrative stored with full audit trail'',
                ''NOTE: LLM unavailable, fallback template used. Error: '' @ str_exn e]\<rparr>\<rparr>"
  using assms by (simp add: generate_sar_def py_bind_def try_except_def)

lemma generation_attempt_eq:
  assumes "calculate_risk_score t c = (risk, ty)"
    and "retrieve_relevant_template env t 2 = Inr ref"
  shows "generation_attempt env t c a = invoke_chain env ref c a ty risk t"
  using assms by (simp add: generation_attempt_def py_bind_def)

lemma generate_sar_cases:
  "\<exists>risk ty ref. calculate_risk_score t c = (risk, ty)
     \<and> retrieve_relevant_template env t 2 = Inr ref
     \<and> generation_attempt env t c a = invoke_chain env ref c a ty risk t"
proof -
  obtain risk ty where crs: "calculate_risk_score t c = (risk, ty)"
    by (cases "calculate_risk_score t c")
  obtain ref where ref: "retrieve_relevant_template env t 2 = Inr ref"
    using retrieve_total by blast
  from generation_attempt_eq [OF crs ref] crs ref show ?thesis by blast
qed

lemma query_templates_raises:
  "chroma_query env t 2 = Inl e \<Longrightarrow> query_templates env t 2 = Inl e"
proof -
  have "min 2 (length SAR_TEMPLATES) = 2" by (simp add: SAR_TEMPLATES_def)
  then show "chroma_query env t 2 = Inl e \<Longrightarrow> query_templates env t 2 = Inl e"
    by (simp only: query_templates_def py_bind_def sum.case)
qed

subsection \<open>The example back ends\<close>

lemma offline_query: "query_templates offline_backends t 2
    = Inl (BackendError ''Could not connect to a Chroma server'')"
  by (rule query_templates_raises) (simp add: offline_backends_def)

lemma offline_retrieve:
  "retrieve_relevant_template offline_backends t 2 = Inr (tmpl_template (SAR_TEMPLATES ! 0))"
  by (simp add: retrieve_cases offline_query)

lemma offline_invoke: "invoke_chain offline_backends ref c a ty risk t
   = Inl (BackendError ''Connection refused'')"
  by (simp add: invoke_chain_def offline_backends_def)

lemma takeover_score:
  "calculate_risk_score takeover_text ''A'' = (30, ''Account Takeover Fraud'')"
  by code_simp

lemma offline_attempt:
  "generation_attempt offline_backends takeover_text ''A'' ''1''
     = Inl (BackendError ''Connection refused'')"
  unfolding generation_attempt_eq [OF takeover_score offline_retrieve]
  by (simp add: invoke_chain_def offline_backends_def)

lemma empty_score: "calculate_risk_score [] [] = (30, ''General Suspicious Activity'')"
  by code_simp

subsection \<open>The audit record\<close>

text \<open>
  Claim C7. For every request and every behaviour of the back ends (the model answering
  or failing), \<open>generate_sar\<close> returns a result with an audit record; the result's risk
  score and typology are those of the classifier, the audit record's \<open>risk_score\<close> and
  \<open>typology_detected\<close> equal the result's own \<open>risk_score\<close> and \<open>typology\<close>, and
  \<open>processing_steps\<close> is not empty.
\<close>

theorem generate_sar_audit_consistent:
  "\<exists>r. generate_sar env transactions customer_name account_number = Inr r
     \<and> (res_risk_score r, res_typology r) = calculate_risk_score transactions customer_name
     \<and> audit_risk_score (res_audit_data r) = res_risk_score r
     \<and> audit_typology_detected (res_audit_data r) = res_typology r
     \<and> audit_processing_steps (res_audit_data r) \<noteq> []"
proof -
  obtain risk ty ref where crs: "calculate_risk_score transactions customer_name = (risk, ty)"
    and ref: "retrieve_relevant_template env transactions 2 = Inr ref"
    using generate_sar_cases by blast
  show ?thesis
  proof (cases "invoke_chain env ref customer_name account_number ty risk transactions")
    case (Inl e)
    show ?thesis by (simp add: generate_sar_fallback [OF crs ref Inl] crs)
  next
    case (Inr narrative)
    show ?thesis by (simp add: generate_sar_live [OF crs ref Inr] crs)
  qed
qed

text \<open>
  Claim C10. When the call of the model raises \<open>e\<close>, the \<open>processing_steps\<close> of the
  audit record are the six steps built before the call, unchanged and in their order,
  followed by one note that names the error: the fifth entry is still
  \<open>5. Ollama LLM generated narrative\<close> and the sixth
  \<open>6. Narrative stored with full audit trail\<close>.
\<close>

theorem generate_sar_fallback_steps:
  assumes "generation_attempt env transactions customer_name account_number = Inl e"
  shows "\<exists>r. generate_sar env transactions customer_name account_number = Inr r
     \<and> audit_processing_steps (res_audit_data r) =
         [''1. Risk keywords scanned and scored'',
          ''2. Typology pattern matched'',
          ''3. ChromaDB queried for relevant SAR templates'',
          ''4. LangChain prompt assembled with context'',
          ''5. Ollama LLM generated narrative'',
          ''6. Narrative stored with full audit trail'',
          ''NOTE: LLM unavailable, fallback template used. Error: '' @ str_exn e]
     \<and> audit_processing_steps (res_audit_data r) ! 4 = ''5. Ollama LLM generated narrative''
     \<and> audit_processing_steps (res_audit_data r) ! 5
           = ''6. Narrative stored with full audit trail''"
proof -
  obtain risk ty ref where crs: "calculate_risk_score transactions customer_name = (risk, ty)"
    and ref: "retrieve_relevant_template env transactions 2 = Inr ref"
    and att: "generation_attempt env transactions customer_name account_number
                = invoke_chain env ref customer_name account_number ty risk transactions"
    using generate_sar_cases by blast
  from att assms have
    "invoke_chain env ref customer_name account_number ty risk transactions = Inl e" by simp
  from generate_sar_fallback [OF crs ref this] show ?thesis by simp
qed

theorem generate_sar_fallback_steps_witness:
  "generation_attempt offline_backends takeover_text ''A'' ''1''
     = Inl (BackendError ''Connection refused'')
   \<and> (\<exists>r. generate_sar offline_backends takeover_text ''A'' ''1'' = Inr r
     \<and> audit_processing_steps (res_audit_data r) =
         [''1. Risk keywords scanned and scored'',
          ''2. Typology pattern matched'',
          ''3. ChromaDB queried for relevant SAR templates'',
          ''4. LangChain prompt assembled with context'',
          ''5. Ollama LLM generated narrative'',
          ''6. Narrative stored with full audit trail'',
          ''NOTE: LLM unavailable, fallback template used. Error: Connection refused''])"
  using generate_sar_fallback_steps [OF offline_attempt] offline_attempt by auto

text \<open>
  Claim C1 (the audit record lists the templates that retrieval selected) does not hold of
  the code: \<open>rag_templates_used\<close> is built from \<open>SAR_TEMPLATES[:2]\<close>, not from the
  result of the retrieval. For every request and every behaviour of the back ends the
  field is the list of the first two typologies of the knowledge base. With an index that
  returns the third and the fourth template the retrieval context names
  \<open>Account Takeover Fraud\<close> and \<open>Trade-Based Money Laundering\<close>, and with the index down
  the context is the first template alone; the audit record is the same in both cases.
\<close>

theorem generate_sar_rag_templates_used:
  "(\<exists>r. generate_sar env transactions customer_name account_number = Inr r
      \<and> audit_rag_templates_used (res_audit_data r)
          = [''Money Laundering - Layering'', ''Structuring / Smurfing''])
   \<and> retrieve_relevant_template live_backends takeover_text 2 =
       Inr (''\<newline>\<newline>--- REFERENCE TEMPLATE (Account Takeover Fraud) ---\<newline>''
            @ tmpl_003_template
            @ ''\<newline>\<newline>--- REFERENCE TEMPLATE (Trade-Based Money Laundering) ---\<newline>''
            @ tmpl_004_template)
   \<and> retrieve_relevant_template offline_backends takeover_text 2 = Inr tmpl_001_template"
proof -
  have labels: "map tmpl_typology (take 2 SAR_TEMPLATES)
                  = [''Money Laundering - Layering'', ''Structuring / Smurfing'']"
    by (simp add: SAR_TEMPLATES_def tmpl_001_def tmpl_002_def)
  obtain risk ty ref where
    crs: "calculate_risk_score transactions customer_name = (risk, ty)"
    and ref: "retrieve_relevant_template env transactions 2 = Inr ref"
    using generate_sar_cases by blast
  have audit: "\<exists>r. generate_sar env transactions customer_name account_number = Inr r
      \<and> audit_rag_templates_used (res_audit_data r)
          = [''Money Laundering - Layering'', ''Structuring / Smurfing'']"
  proof (cases "invoke_chain env ref customer_name account_number ty risk transactions")
    case (Inl e)
    show ?thesis by (simp add: generate_sar_fallback [OF crs ref Inl] labels)
  next
    case (Inr narrative)
    show ?thesis by (simp add: generate_sar_live [OF crs ref Inr] labels)
  qed
  have two: "min 2 (length SAR_TEMPLATES) = 2" by (simp add: SAR_TEMPLATES_def)
  have live: "query_templates live_backends takeover_text 2 =
       Inr (''\<newline>\<newline>--- REFERENCE TEMPLATE (Account Takeover Fraud) ---\<newline>''
            @ tmpl_003_template
            @ ''\<newline>\<newline>--- REFERENCE TEMPLATE (Trade-Based Money Laundering) ---\<newline>''
            @ tmpl_004_template)"
    unfolding query_templates_def two
    by (simp add: live_backends_def py_bind_def py_index_def py_getitem_def
          template_metadata_def tmpl_003_def tmpl_004_def)
  have off: "retrieve_relevant_template offline_backends takeover_text 2 = Inr tmpl_001_template"
    by (simp add: offline_retrieve SAR_TEMPLATES_def tmpl_001_def)
  from audit live off show ?thesis by (simp add: retrieve_cases)
qed

text \<open>
  Claim C2 (a failure of the model is surfaced in \<open>processing_steps\<close> and in the
  identifier of the generating back end) holds of the code in its first half only: the
  handler appends a note to \<open>processing_steps\<close> and leaves \<open>model_used\<close> as it was
  built before the call. For every request and every behaviour of the back ends
  \<open>model_used\<close> is \<open>llama3.1:8b (local)\<close>; with both back ends down the narrative is
  the fallback narrative, the last processing step names the error, and \<open>model_used\<close>
  still names the model.
\<close>

theorem generate_sar_model_used:
  "(\<exists>r. generate_sar env transactions customer_name account_number = Inr r
      \<and> audit_model_used (res_audit_data r) = ''llama3.1:8b (local)'')
   \<and> (\<exists>r. generate_sar offline_backends takeover_text ''A'' ''1'' = Inr r
      \<and> res_narrative r
          = generate_fallback_sar ''A'' ''1'' takeover_text ''Account Takeover Fraud'' 30
      \<and> audit_model_used (res_audit_data r) = ''llama3.1:8b (local)''
      \<and> last (audit_processing_steps (res_audit_data r))
          = ''NOTE: LLM unavailable, fallback template used. Error: Connection refused'')"
proof -
  obtain risk ty ref where
    crs: "calculate_risk_score transactions customer_name = (risk, ty)"
    and ref: "retrieve_relevant_template env transactions 2 = Inr ref"
    using generate_sar_cases by blast
  have general: "\<exists>r. generate_sar env transactions customer_name account_number = Inr r
      \<and> audit_model_used (res_audit_data r) = ''llama3.1:8b (local)''"
  proof (cases "invoke_chain env ref customer_name account_number ty risk transactions")
    case (Inl e)
    show ?thesis by (simp add: generate_sar_fallback [OF crs ref Inl])
  next
    case (Inr narrative)
    show ?thesis by (simp add: generate_sar_live [OF crs ref Inr])
  qed
  have "\<exists>r. generate_sar offline_backends takeover_text ''A'' ''1'' = Inr r
      \<and> res_narrative r
          = generate_fallback_sar ''A'' ''1'' takeover_text ''Account Takeover Fraud'' 30
      \<and> audit_model_used (res_audit_data r) = ''llama3.1:8b (local)''
      \<and> last (audit_processing_steps (res_audit_data r))
          = ''NOTE: LLM unavailable, fallback template used. Error: Connection refused''"
    by (simp add: generate_sar_fallback [OF takeover_score offline_retrieve offline_invoke])
  with general show ?thesis by blast
qed

subsection \<open>Failures\<close>

text \<open>
  Claim C8. When the body of the \<open>try\<close> block of \<open>retrieve_relevant_template\<close> raises
  (the index is unavailable, the query fails, or its result is malformed), the function
  returns the \<open>template\<close> of the first entry of \<open>SAR_TEMPLATES\<close> and no exception;
  \<open>generate_sar\<close> then returns a result whose narrative is the answer of the model to the
  prompt built with that template, or the fallback narrative when the model fails.
\<close>

theorem retrieve_relevant_template_fallback:
  assumes "query_templates env transactions 2 = Inl e"
  shows "retrieve_relevant_template env transactions 2 = Inr (tmpl_template (SAR_TEMPLATES ! 0))
     \<and> (\<exists>r. generate_sar env transactions customer_name account_number = Inr r
          \<and> res_narrative r =
              (case invoke_chain env (tmpl_template (SAR_TEMPLATES ! 0)) customer_name
                      account_number (snd (calculate_risk_score transactions customer_name))
                      (fst (calculate_risk_score transactions customer_name)) transactions of
                 Inr narrative \<Rightarrow> narrative
               | Inl e' \<Rightarrow>
                   generate_fallback_sar customer_name account_number transactions
                     (snd (calculate_risk_score transactions customer_name))
                     (fst (calculate_risk_score transactions customer_name))))"
proof -
  let ?ref = "tmpl_template (SAR_TEMPLATES ! 0)"
  have ref: "retrieve_relevant_template env transactions 2 = Inr ?ref"
    using assms by (simp add: retrieve_cases)
  obtain risk ty where crs: "calculate_risk_score transactions customer_name = (risk, ty)"
    by (cases "calculate_risk_score transactions customer_name")
  show ?thesis
  proof (cases "invoke_chain env ?ref customer_name account_number ty risk transactions")
    case (Inl e')
    show ?thesis by (simp add: ref generate_sar_fallback [OF crs ref Inl] crs Inl)
  next
    case (Inr narrative)
    show ?thesis by (simp add: ref generate_sar_live [OF crs ref Inr] crs Inr)
  qed
qed

theorem retrieve_relevant_template_fallback_witness:
  "chroma_query offline_backends takeover_text 2
      = Inl (BackendError ''Could not connect to a Chroma server'')
   \<and> query_templates offline_backends takeover_text 2
      = Inl (BackendError ''Could not connect to a Chroma server'')
   \<and> retrieve_relevant_template offline_backends takeover_text 2 = Inr tmpl_001_template
   \<and> (\<exists>r. generate_sar offline_backends takeover_text ''A'' ''1'' = Inr r
        \<and> res_narrative r =
             generate_fallback_sar ''A'' ''1'' takeover_text ''Account Takeover Fraud'' 30)"
proof -
  have t1: "tmpl_template (SAR_TEMPLATES ! 0) = tmpl_001_template"
    by (simp add: SAR_TEMPLATES_def tmpl_001_def)
  have inv: "invoke_chain offline_backends tmpl_001_template ''A'' ''1''
               ''Account Takeover Fraud'' 30 takeover_text
             = Inl (BackendError ''Connection refused'')"
    by (simp add: invoke_chain_def offline_backends_def)
  have cq: "chroma_query offline_backends takeover_text 2
      = Inl (BackendError ''Could not connect to a Chroma server'')"
    by (simp add: offline_backends_def)
  show ?thesis
    using retrieve_relevant_template_fallback [OF offline_query [of takeover_text],
        where customer_name = "''A''" and account_number = "''1''"]
    by (simp add: t1 takeover_score inv offline_query cq)
qed

text \<open>
  Claim C4 (the entry point fails exactly when a required field is empty) is false as
  stated: with an empty customer name and an empty transaction text, and both back ends
  down, \<open>generate_sar\<close> returns a result.
\<close>

theorem generate_sar_accepts_empty_fields:
  "invalid_input [] [] \<and> \<not> isl (generate_sar offline_backends [] [] ''N/A'')"
  by (simp add: invalid_input_def
        generate_sar_fallback [OF empty_score offline_retrieve offline_invoke])

text \<open>
  Claim C4, amended. \<open>generate_sar\<close> checks none of its arguments and propagates no
  failure: for every transaction text, customer name and account number, empty or not, and
  every behaviour of the two back ends, it returns a result.
\<close>

theorem generate_sar_total:
  "\<exists>r. generate_sar env transactions customer_name account_number = Inr r"
proof -
  obtain risk ty ref where crs: "calculate_risk_score transactions customer_name = (risk, ty)"
    and ref: "retrieve_relevant_template env transactions 2 = Inr ref"
    using generate_sar_cases by blast
  show ?thesis
  proof (cases "invoke_chain env ref customer_name account_number ty risk transactions")
    case (Inl e)
    show ?thesis by (simp add: generate_sar_fallback [OF crs ref Inl])
  next
    case (Inr narrative)
    show ?thesis by (simp add: generate_sar_live [OF crs ref Inr])
  qed
qed

section \<open>The section headings of the fallback narrative\<close>

lemma split_lines_nonempty: "split_lines s \<noteq> []"
  by (induction s) (auto split: list.splits)

lemma split_lines_append_newline:
  "split_lines (a @ CHR 0x0A # b) = split_lines a @ split_lines b"
proof (induction a)
  case Nil
  then show ?case by simp
next
  case (Cons c a)
  then show ?case
    using split_lines_nonempty [of a] by (cases "split_lines a") auto
qed

lemma split_lines_prefix:
  "CHR 0x0A \<notin> set p \<Longrightarrow> split_lines (p @ s) = (p @ hd (split_lines s)) # tl (split_lines s)"
proof (induction p)
  case Nil
  then show ?case using split_lines_nonempty [of s] by simp
next
  case (Cons c p)
  then show ?case by auto
qed

lemma split_lines_no_newline: "CHR 0x0A \<notin> set s \<Longrightarrow> split_lines s = [s]"
  using split_lines_prefix [of s "[]"] by simp

lemma split_lines_join:
  "ls \<noteq> [] \<Longrightarrow> split_lines (join_lines ls) = concat (map split_lines ls)"
  by (induction ls rule: join_lines.induct) (simp_all add: split_lines_append_newline)

lemma heading_lines_append: "heading_lines (xs @ ys) = heading_lines xs @ heading_lines ys"
  by (simp add: heading_lines_def)

lemma heading_lines_concat: "heading_lines (concat xss) = concat (map heading_lines xss)"
  by (induction xss) (simp_all add: heading_lines_append, simp add: heading_lines_def)

lemma section_headings_join:
  "ls \<noteq> [] \<Longrightarrow> section_headings (join_lines ls) = concat (map section_headings ls)"
proof -
  assume "ls \<noteq> []"
  have "section_headings = (\<lambda>x. heading_lines (split_lines x))"
    by (rule ext) (simp add: section_headings_def)
  with \<open>ls \<noteq> []\<close> show ?thesis
    by (simp add: section_headings_def split_lines_join heading_lines_concat comp_def)
qed

lemma section_headings_line:
  "CHR 0x0A \<notin> set s \<Longrightarrow>
   section_headings s = (if is_heading s then [rstrip_blanks s] else [])"
  by (simp add: section_headings_def split_lines_no_newline heading_lines_def)

lemma startswith_append:
  "length pat \<le> length p \<Longrightarrow> startswith pat (p @ x) = startswith pat p"
  by (induction pat p rule: startswith.induct) simp_all

lemma section_headings_prefixed:
  assumes "CHR 0x0A \<notin> set p" and "3 \<le> length p" and "\<not> is_heading p"
  shows "section_headings (p @ f) = heading_lines (tl (split_lines f))"
proof -
  have "\<not> is_heading (p @ hd (split_lines f))"
    using assms(2,3) by (simp add: is_heading_def startswith_append)
  then show ?thesis
    by (simp add: section_headings_def split_lines_prefix [OF assms(1)] heading_lines_def)
qed

lemma digit_no_newline: "k < 10 \<Longrightarrow> ''0123456789'' ! k \<noteq> CHR 0x0A"
proof -
  assume "k < 10"
  then have "''0123456789'' ! k \<in> set ''0123456789''" by (intro nth_mem) simp
  then show ?thesis by auto
qed

lemma str_nat_no_newline: "CHR 0x0A \<notin> set (str_nat n)"
proof (induction n rule: str_nat.induct)
  case (1 n)
  show ?case
  proof (cases "n < 10")
    case True
    then show ?thesis using digit_no_newline [of n] by (subst str_nat.simps) simp
  next
    case False
    have "n mod 10 < 10" by simp
    from digit_no_newline [OF this] "1.IH" [OF False] False show ?thesis
      by (subst str_nat.simps) simp
  qed
qed

lemma str_int_no_newline: "CHR 0x0A \<notin> set (str_int i)"
  by (simp add: str_int_def str_nat_no_newline)

lemma fallback_as_lines:
  \<open>generate_fallback_sar customer_name account_number transactions typology risk_score =
   join_lines
     [''## 1. SUBJECT INFORMATION'',
      ''Customer Name: '' @ customer_name,
      ''Account Number: '' @ account_number,
      ''This SAR has been raised based on automated pattern analysis of account activity.'',
      ''The customer's transaction behaviour has deviated significantly from their established profile.'',
      [],
      ''## 2. TRANSACTION SUMMARY'',
      ''The following suspicious transactions have been identified:'',
      transactions,
      [],
      ''## 3. SUSPICIOUS ACTIVITY DESCRIPTION'',
      ''Analysis of the account activity reveals patterns inconsistent with the customer's '',
      ''known financial profile and stated purpose of account. The transaction pattern '',
      ''suggests deliberate structuring or layering of funds inconsistent with legitimate '',
      ''business or personal activity. The velocity, volume, and nature of transactions '',
      ''observed over the reporting period raise significant concerns.'',
      [],
      ''## 4. TYPOLOGY MATCH'',
      ''Detected Typology: '' @ typology,
      ''This activity aligns with FATF-recognized money laundering/fraud typologies '',
      ''involving layering of funds through multiple transactions to obscure the origin '',
      ''of funds and evade detection thresholds.'',
      [],
      ''## 5. RED FLAGS IDENTIFIED'',
      ''1. Transaction pattern inconsistent with customer profile'',
      ''2. Unusual velocity of transactions detected'',
      ''3. Transaction amounts and counterparties raise AML concerns'',
      ''4. No apparent legitimate business purpose identified'',
      ''5. Pattern matches known financial crime typology: '' @ typology,
      [],
      ''## 6. ANALYST RECOMMENDATION'',
      ''RECOMMENDED ACTION: File Suspicious Activity Report immediately.'',
      ''- Escalate to Senior AML Officer for review'',
      ''- Place account under enhanced monitoring'',
      ''- Request source of funds documentation from customer'',
      ''- Cross-reference counterparties against sanctions and PEP lists'',
      ''- Consider account restriction pending investigation'',
      [],
      ''## 7. AUDIT RATIONALE'',
      ''Risk Score: '' @ str_int risk_score @ ''/100'',
      ''This narrative was generated based on automated transaction pattern analysis.'',
      ''Key data points: transaction frequency, amount patterns, counterparty diversity,'',
      ''and geographic risk factors. All source data is preserved in the audit log.'',
      ''NOTE: This is a system-generated draft. Human analyst review and approval required before filing.'',
      []]\<close>
  by (simp add: generate_fallback_sar_def)

lemma prompt_section_headings: "section_headings SAR_PROMPT_SECTIONS = SECTION_HEADINGS"
  by code_simp

lemma fallback_section_headings:
  "section_headings
     (generate_fallback_sar customer_name account_number transactions typology risk_score) =
   ''## 1. SUBJECT INFORMATION'' # heading_lines (tl (split_lines customer_name))
   @ heading_lines (tl (split_lines account_number))
   @ ''## 2. TRANSACTION SUMMARY'' # section_headings transactions
   @ ''## 3. SUSPICIOUS ACTIVITY DESCRIPTION'' # ''## 4. TYPOLOGY MATCH''
   # heading_lines (tl (split_lines typology))
   @ ''## 5. RED FLAGS IDENTIFIED'' # heading_lines (tl (split_lines typology))
   @ [''## 6. ANALYST RECOMMENDATION'', ''## 7. AUDIT RATIONALE'']"
proof -
  have customer: "section_headings (''Customer Name: '' @ customer_name)
      = heading_lines (tl (split_lines customer_name))"
    by (rule section_headings_prefixed) (simp_all add: is_heading_def)
  have account: "section_headings (''Account Number: '' @ account_number)
      = heading_lines (tl (split_lines account_number))"
    by (rule section_headings_prefixed) (simp_all add: is_heading_def)
  have detected: "section_headings (''Detected Typology: '' @ typology)
      = heading_lines (tl (split_lines typology))"
    by (rule section_headings_prefixed) (simp_all add: is_heading_def)
  have pattern: "section_headings
        (''5. Pattern matches known financial crime typology: '' @ typology)
      = heading_lines (tl (split_lines typology))"
    by (rule section_headings_prefixed) (simp_all add: is_heading_def)
  have "CHR 0x0A \<notin> set (str_int risk_score @ ''/100'')"
    by (simp add: str_int_no_newline)
  then have "split_lines (str_int risk_score @ ''/100'') = [str_int risk_score @ ''/100'']"
    by (rule split_lines_no_newline)
  moreover have "section_headings (''Risk Score: '' @ str_int risk_score @ ''/100'')
      = heading_lines (tl (split_lines (str_int risk_score @ ''/100'')))"
    by (rule section_headings_prefixed) (simp_all add: is_heading_def)
  ultimately have score: "section_headings (''Risk Score: '' @ str_int risk_score @ ''/100'') = []"
    by (simp add: heading_lines_def)
  show ?thesis
    apply (simp only: fallback_as_lines)
    apply (subst section_headings_join)
     apply simp
    apply (simp only: list.map concat.simps customer account detected pattern score)
    apply (simp add: section_headings_line is_heading_def rstrip_blanks_def)
    done
qed

lemma heading_lines_tl: "heading_lines ls = [] \<Longrightarrow> heading_lines (tl ls) = []"
  by (cases ls) (auto simp: heading_lines_def split: if_splits)

lemma section_headings_tl:
  "section_headings field = [] \<Longrightarrow> heading_lines (tl (split_lines field)) = []"
  by (simp add: section_headings_def heading_lines_tl)

lemma subseq_seven:
  "subseq [h1, h2, h3, h4, h5, h6, h7]
     (h1 # x1 @ x2 @ h2 # x3 @ h3 # h4 # x4 @ h5 # x5 @ [h6, h7])"
  by (intro subseq_Cons2 list_emb_append2) simp

lemma plain_fields:
  "section_headings ''A'' = [] \<and> section_headings ''1'' = []
   \<and> section_headings takeover_text = []
   \<and> section_headings ''Account Takeover Fraud'' = []"
  by code_simp

lemma markdown_headings:
  "section_headings markdown_text = [''## Transactions'']"
  by code_simp

text \<open>
  Claim C5 (the fallback narrative has exactly the seven section headings, for every case
  input) is false as stated: the fields are copied into the narrative as they are, so a
  transaction text with a line that starts with \<open>## \<close> adds a heading.
\<close>

theorem generate_fallback_sar_extra_heading:
  "section_headings
     (generate_fallback_sar ''A'' ''1'' markdown_text ''Structuring / Smurfing'' 30)
   \<noteq> section_headings SAR_PROMPT_SECTIONS"
proof -
  have "heading_lines (tl (split_lines ''A'')) = []"
    "heading_lines (tl (split_lines ''1'')) = []"
    "heading_lines (tl (split_lines ''Structuring / Smurfing'')) = []"
    by code_simp+
  then show ?thesis
    by (simp add: fallback_section_headings markdown_headings prompt_section_headings
          SECTION_HEADINGS_def)
qed

text \<open>
  Claim C5, amended. For every customer name, account number, transaction text, typology
  and risk score, \<open>generate_fallback_sar\<close> is a total function that calls no back end,
  and the seven section headings that the prompt of the generative path specifies occur
  among the section headings of the fallback narrative, in the same order. When no line
  of the customer name, the account number, the transaction text or the typology starts
  with \<open>## \<close>, the section headings of the fallback narrative are exactly those seven.
\<close>

theorem generate_fallback_sar_headings:
  "subseq SECTION_HEADINGS
     (section_headings
        (generate_fallback_sar customer_name account_number transactions typology risk_score))
   \<and> section_headings SAR_PROMPT_SECTIONS = SECTION_HEADINGS
   \<and> (section_headings customer_name = [] \<and> section_headings account_number = []
        \<and> section_headings transactions = [] \<and> section_headings typology = []
      \<longrightarrow> section_headings
            (generate_fallback_sar customer_name account_number transactions typology
               risk_score)
          = section_headings SAR_PROMPT_SECTIONS)"
proof (intro conjI impI)
  show "subseq SECTION_HEADINGS
     (section_headings
        (generate_fallback_sar customer_name account_number transactions typology risk_score))"
    unfolding fallback_section_headings SECTION_HEADINGS_def by (rule subseq_seven)
next
  show "section_headings SAR_PROMPT_SECTIONS = SECTION_HEADINGS"
    by (rule prompt_section_headings)
next
  assume "section_headings customer_name = [] \<and> section_headings account_number = []
        \<and> section_headings transactions = [] \<and> section_headings typology = []"
  then show "section_headings
      (generate_fallback_sar customer_name account_number transactions typology risk_score)
    = section_headings SAR_PROMPT_SECTIONS"
    by (simp add: fallback_section_headings prompt_section_headings SECTION_HEADINGS_def
          section_headings_tl)
qed

theorem generate_fallback_sar_headings_witness:
  "section_headings ''A'' = [] \<and> section_headings ''1'' = []
   \<and> section_headings takeover_text = []
   \<and> section_headings ''Account Takeover Fraud'' = []
   \<and> section_headings
         (generate_fallback_sar ''A'' ''1'' takeover_text ''Account Takeover Fraud'' 30)
       = SECTION_HEADINGS"
  using generate_fallback_sar_headings
          [where customer_name = "''A''" and account_number = "''1''"
             and transactions = takeover_text and typology = "''Account Takeover Fraud''"
             and risk_score = 30]
        plain_fields
  by simp

end
